theory Spec2Isabelle
  imports Complex_Main "HOL-Library.AList"
begin

unbundle bit_operations_syntax

section \<open>Python values\<close>

text \<open>
  A Python \<open>str\<close> is modelled as a \<^typ>\<open>string\<close>: one \<^typ>\<open>char\<close> per character, the 256
  values of \<^typ>\<open>char\<close> read as the code points U+0000 to U+00FF. Every function below that
  looks inside a character (\<open>str.lower\<close>, \<open>str.encode("utf-8")\<close>, \<open>int\<close>, the CSV reader) is
  written out for exactly this range. Python floats are modelled by the real numbers.
\<close>

datatype failure =
    AuthFailure
  | LoginHTTP int
  | LoginFailedAfterRetries
  | Repeated401
  | Forbidden403
  | UnhandledNon200 int
  | ExceededRetries

text \<open>
  The exceptions that can leave the modelled functions. Every \<open>raise RuntimeError(...)\<close> of
  \<open>client.py\<close> is a \<open>RuntimeError\<close> whose \<^typ>\<open>failure\<close> names the message; the others are
  raised by the interpreter or by the libraries the client calls. \<open>Timeout\<close> and
  \<open>ConnectionError\<close> are the two exceptions of \<open>requests\<close> that the client catches;
  \<open>RequestException\<close> stands for any other exception of that library.
\<close>

datatype py_error =
    RuntimeError failure
  | StopIteration
  | TypeError
  | ValueError
  | AttributeError
  | OverflowError
  | CsvError
  | JSONDecodeError
  | Timeout
  | ConnectionError
  | RequestException

datatype jvalue =
    JNull
  | JBool bool
  | JInt int
  | JFloat real
  | JStr string
  | JArr "jvalue list"
  | JObj "(string \<times> jvalue) list"

text \<open>Truth value of a decoded JSON value, as Python's \<open>if x:\<close> tests it.\<close>

fun truthy :: "jvalue \<Rightarrow> bool" where
  "truthy JNull = False"
| "truthy (JBool b) = b"
| "truthy (JInt i) = (i \<noteq> 0)"
| "truthy (JFloat x) = (x \<noteq> 0)"
| "truthy (JStr s) = (s \<noteq> [])"
| "truthy (JArr xs) = (xs \<noteq> [])"
| "truthy (JObj kvs) = (kvs \<noteq> [])"

text \<open>\<open>d.get(k)\<close> on a dict: the value stored under \<open>k\<close>, or \<open>None\<close>.\<close>

definition dict_get :: "(string \<times> jvalue) list \<Rightarrow> string \<Rightarrow> jvalue" where
  "dict_get kvs k = (case map_of kvs k of None \<Rightarrow> JNull | Some v \<Rightarrow> v)"

subsection \<open>\<open>int(s)\<close> on a string\<close>

text \<open>The white space \<open>int\<close> drops around a literal, among the code points below 256.\<close>

definition is_space :: "char \<Rightarrow> bool" where
  "is_space c = (of_char c \<in> {9, 10, 11, 12, 13, 32, 133, 160 :: nat})"

definition is_digit :: "char \<Rightarrow> bool" where
  "is_digit c = (48 \<le> (of_char c :: nat) \<and> (of_char c :: nat) \<le> 57)"

definition strip :: "string \<Rightarrow> string" where
  "strip s = rev (dropWhile is_space (rev (dropWhile is_space s)))"

text \<open>
  The digit groups of a decimal literal: digits, with single underscores allowed between
  two digits only. The result is the digits without the underscores.
\<close>

fun digits_of :: "string \<Rightarrow> string option" where
  "digits_of [] = None"
| "digits_of [c] = (if is_digit c then Some [c] else None)"
| "digits_of (c # d # cs) =
     (if is_digit c then
        (if d = CHR ''_'' then map_option ((#) c) (digits_of cs)
         else map_option ((#) c) (digits_of (d # cs)))
      else None)"

definition decimal :: "string \<Rightarrow> int" where
  "decimal ds = foldl (\<lambda>n c. 10 * n + (int (of_char c) - 48)) 0 ds"

text \<open>
  \<open>int(s)\<close>: surrounding white space is dropped, one sign is allowed, and a literal of
  more than 4300 digits is refused (CPython's default limit). \<open>None\<close> stands for the
  \<open>ValueError\<close> Python raises.
\<close>

definition py_int :: "string \<Rightarrow> int option" where
  "py_int s =
     (let t = strip s;
          neg = (t \<noteq> [] \<and> hd t = CHR ''-'');
          body = (if t \<noteq> [] \<and> (hd t = CHR ''-'' \<or> hd t = CHR ''+'') then tl t else t)
      in case digits_of body of
           None \<Rightarrow> None
         | Some ds \<Rightarrow>
             if length ds > 4300 then None
             else Some (if neg then - decimal ds else decimal ds))"

section \<open>Backoff calculator\<close>

text \<open>
  What \<open>_calculate_backoff\<close> reads from outside: the wall clock (\<open>datetime.now()\<close>, in
  seconds since the epoch), the draw of \<open>random.uniform(0, 1)\<close>, and which timestamps the
  platform's \<open>datetime.fromtimestamp\<close> accepts (it raises on a timestamp outside the years
  it can represent). Both datetimes are local times; the model takes the offset of the
  local time zone to be the same at the two instants, so that their difference is the
  difference of the timestamps.
\<close>

record clock =
  now :: real
  uniform :: real
  fromtimestamp_ok :: "int \<Rightarrow> bool"

text \<open>\<open>if ratelimit_reset:\<close> on an \<open>Optional[str]\<close>: \<open>None\<close> and the empty string are false.\<close>

definition header_truthy :: "string option \<Rightarrow> bool" where
  "header_truthy h = (case h of None \<Rightarrow> False | Some s \<Rightarrow> s \<noteq> [])"

text \<open>
  \<^verbatim>\<open>
  if ratelimit_reset:
      reset_time = datetime.fromtimestamp(int(ratelimit_reset))
      delta = reset_time - datetime.now() + timedelta(milliseconds=500)
      return max(delta.total_seconds(), 1.0)
  return min(2 ** attempt + random.uniform(0, 1), 60)
  \<close>
\<close>

definition calculate_backoff :: "clock \<Rightarrow> int \<Rightarrow> string option \<Rightarrow> py_error + real" where
  "calculate_backoff c attempt ratelimit_reset =
     (if header_truthy ratelimit_reset then
        (case py_int (the ratelimit_reset) of
           None \<Rightarrow> Inl ValueError
         | Some t \<Rightarrow>
             if fromtimestamp_ok c t then
               (let delta = real_of_int t - now c + 1 / 2 in Inr (max delta 1))
             else Inl OverflowError)
      else Inr (min (2 powi attempt + uniform c) 60))"

section \<open>The client and the server it talks to\<close>

text \<open>
  A \<open>requests.Response\<close>, as far as the client reads it: \<open>r.status_code\<close>, \<open>r.headers.get\<close>,
  \<open>r.json()\<close> (the decoded body, or the exception the decoder raises) and \<open>r.text\<close> (\<open>body_text\<close>).
\<close>

record response =
  status_code :: int
  headers :: "string \<Rightarrow> string option"
  json :: "py_error + jvalue"
  body_text :: string

datatype reply = Reply response | Raise py_error

text \<open>
  The outside world of one run: what the \<open>k\<close>-th \<open>session.get\<close> answers when asked for a URL,
  what the \<open>k\<close>-th \<open>session.post\<close> to the authentication endpoint answers, and the clock
  and random draw seen after \<open>k\<close> sleeps.
\<close>

record server =
  get_reply :: "nat \<Rightarrow> string \<Rightarrow> reply"
  post_reply :: "nat \<Rightarrow> reply"
  clock_at :: "nat \<Rightarrow> clock"

text \<open>
  The mutable state of an \<open>irDataClient\<close>: the \<open>authenticated\<close> attribute, and a trace of
  its effects (the number of GET and POST requests sent, and every \<open>time.sleep\<close> argument in
  order).
\<close>

record client =
  authenticated :: bool
  n_get :: nat
  n_post :: nat
  slept :: "real list"

definition session_get :: "server \<Rightarrow> string \<Rightarrow> client \<Rightarrow> reply \<times> client" where
  "session_get e url s = (get_reply e (n_get s) url, s\<lparr>n_get := Suc (n_get s)\<rparr>)"

definition session_post :: "server \<Rightarrow> client \<Rightarrow> reply \<times> client" where
  "session_post e s = (post_reply e (n_post s), s\<lparr>n_post := Suc (n_post s)\<rparr>)"

definition sleep :: "real \<Rightarrow> client \<Rightarrow> client" where
  "sleep seconds s = s\<lparr>slept := slept s @ [seconds]\<rparr>"

definition backoff :: "server \<Rightarrow> client \<Rightarrow> int \<Rightarrow> string option \<Rightarrow> py_error + real" where
  "backoff e s attempt ratelimit_reset =
     calculate_backoff (clock_at e (length (slept s))) attempt ratelimit_reset"

text \<open>
  How the body of a \<open>try\<close> inside a \<open>for\<close> loop ends: it returns from the function, it reaches
  \<open>continue\<close>, or it raises.
\<close>

datatype 'a step = Done 'a | Continue | Raised py_error

section \<open>Session authenticator\<close>

text \<open>The \<open>try\<close> block of one iteration of \<open>_login\<close> (lines 126 to 161).\<close>

definition login_try :: "server \<Rightarrow> int \<Rightarrow> client \<Rightarrow> unit step \<times> client" where
  "login_try e attempt s =
     (case session_post e s of
        (Raise x, s1) \<Rightarrow> (Raised x, s1)
      | (Reply r, s1) \<Rightarrow>
          if status_code r = 429 then
            (case backoff e s1 attempt (headers r ''x-ratelimit-reset'') of
               Inl x \<Rightarrow> (Raised x, s1)
             | Inr wait_time \<Rightarrow> (Continue, sleep wait_time s1))
          else if status_code r = 200 then
            (case json r of
               Inl x \<Rightarrow> (Raised x, s1)
             | Inr response_data \<Rightarrow>
                 (case response_data of
                    JObj kvs \<Rightarrow>
                      if truthy (dict_get kvs ''authcode'')
                      then (Done (), sleep (1 / 2) (s1\<lparr>authenticated := True\<rparr>))
                      else (Raised (RuntimeError AuthFailure), s1)
                  | _ \<Rightarrow> (Raised AttributeError, s1)))
          else (Raised (RuntimeError (LoginHTTP (status_code r))), s1))"

text \<open>
  \<open>for attempt in range(retries)\<close> of \<open>_login\<close>, from iteration \<open>attempt\<close> on, with the
  \<open>except (requests.Timeout, requests.ConnectionError)\<close> handler and the final \<open>raise\<close>.
\<close>

function login_loop :: "server \<Rightarrow> int \<Rightarrow> int \<Rightarrow> client \<Rightarrow> (py_error + unit) \<times> client" where
  "login_loop e retries attempt s =
     (if attempt < retries then
        (case login_try e attempt s of
           (Done u, s1) \<Rightarrow> (Inr u, s1)
         | (Continue, s1) \<Rightarrow> login_loop e retries (attempt + 1) s1
         | (Raised x, s1) \<Rightarrow>
             if x = Timeout \<or> x = ConnectionError then
               (case backoff e s1 attempt None of
                  Inl y \<Rightarrow> (Inl y, s1)
                | Inr wait_time \<Rightarrow> login_loop e retries (attempt + 1) (sleep wait_time s1))
             else (Inl x, s1))
      else (Inl (RuntimeError LoginFailedAfterRetries), s))"
  by pat_completeness auto
termination
  by (relation "measure (\<lambda>(e, retries, attempt, s). nat (retries - attempt))") auto

declare login_loop.simps [simp del]

definition login :: "server \<Rightarrow> int \<Rightarrow> client \<Rightarrow> (py_error + unit) \<times> client" where
  "login e retries s = login_loop e retries 0 s"

section \<open>Resilient requester\<close>

text \<open>
  The \<open>try\<close> block of one iteration of \<open>_robust_get\<close> (lines 202 to 249). Besides the way
  it ends and the client's state it gives the value of the local flag \<open>attempted_relogin\<close>.
  \<open>self._login()\<close> is called with its default of three attempts.
\<close>

definition robust_get_try ::
    "server \<Rightarrow> string \<Rightarrow> int \<Rightarrow> bool \<Rightarrow> client \<Rightarrow> response step \<times> bool \<times> client" where
  "robust_get_try e url attempt attempted_relogin s =
     (case session_get e url s of
        (Raise x, s1) \<Rightarrow> (Raised x, attempted_relogin, s1)
      | (Reply r, s1) \<Rightarrow>
          if status_code r = 401 then
            (if \<not> attempted_relogin then
               (case login e 3 (s1\<lparr>authenticated := False\<rparr>) of
                  (Inl x, s2) \<Rightarrow> (Raised x, True, s2)
                | (Inr u, s2) \<Rightarrow> (Continue, True, s2))
             else (Raised (RuntimeError Repeated401), attempted_relogin, s1))
          else if status_code r = 403 then
            (Raised (RuntimeError Forbidden403), attempted_relogin, s1)
          else if status_code r = 429 then
            (case backoff e s1 attempt (headers r ''x-ratelimit-reset'') of
               Inl x \<Rightarrow> (Raised x, attempted_relogin, s1)
             | Inr wait_time \<Rightarrow> (Continue, attempted_relogin, sleep wait_time s1))
          else if status_code r \<noteq> 200 then
            (Raised (RuntimeError (UnhandledNon200 (status_code r))), attempted_relogin, s1)
          else (Done r, attempted_relogin, s1))"

text \<open>
  \<open>for attempt in range(retries)\<close> of \<open>_robust_get\<close>, from iteration \<open>attempt\<close> on, with the
  \<open>except\<close> handler and the final \<open>raise\<close>.
\<close>

function robust_get_loop ::
    "server \<Rightarrow> string \<Rightarrow> int \<Rightarrow> int \<Rightarrow> bool \<Rightarrow> client \<Rightarrow> (py_error + response) \<times> client" where
  "robust_get_loop e url retries attempt attempted_relogin s =
     (if attempt < retries then
        (case robust_get_try e url attempt attempted_relogin s of
           (Done r, flag, s1) \<Rightarrow> (Inr r, s1)
         | (Continue, flag, s1) \<Rightarrow> robust_get_loop e url retries (attempt + 1) flag s1
         | (Raised x, flag, s1) \<Rightarrow>
             if x = Timeout \<or> x = ConnectionError then
               (case backoff e s1 attempt None of
                  Inl y \<Rightarrow> (Inl y, s1)
                | Inr wait_time \<Rightarrow>
                    robust_get_loop e url retries (attempt + 1) flag (sleep wait_time s1))
             else (Inl x, s1))
      else (Inl (RuntimeError ExceededRetries), s))"
  by pat_completeness auto
termination
  by (relation "measure (\<lambda>(e, url, retries, attempt, flag, s). nat (retries - attempt))") auto

declare robust_get_loop.simps [simp del]

text \<open>
  \<open>_robust_get\<close>: the login before the loop when authentication is required and the client
  is not authenticated, then the loop with \<open>attempted_relogin = False\<close>.
\<close>

definition robust_get ::
    "server \<Rightarrow> string \<Rightarrow> int \<Rightarrow> bool \<Rightarrow> client \<Rightarrow> (py_error + response) \<times> client" where
  "robust_get e url retries require_auth s =
     (if require_auth \<and> \<not> authenticated s then
        (case login e 3 s of
           (Inl x, s1) \<Rightarrow> (Inl x, s1)
         | (Inr u, s1) \<Rightarrow> robust_get_loop e url retries 0 False s1)
      else robust_get_loop e url retries 0 False s)"

section \<open>Resource resolver\<close>

text \<open>\<open>isinstance(data, list)\<close> and \<open>isinstance(chunks, dict)\<close>.\<close>

fun is_list :: "jvalue \<Rightarrow> bool" where
  "is_list (JArr xs) = True"
| "is_list v = False"

fun is_dict :: "jvalue \<Rightarrow> bool" where
  "is_dict (JObj kvs) = True"
| "is_dict v = False"

text \<open>\<open>needle in hay\<close> on two strings: \<open>needle\<close> occurs as a contiguous substring.\<close>

fun is_substring :: "string \<Rightarrow> string \<Rightarrow> bool" where
  "is_substring needle [] = (needle = [])"
| "is_substring needle (c # cs) =
     (take (length needle) (c # cs) = needle \<or> is_substring needle cs)"

text \<open>
  \<open>key in data\<close> for a string \<open>key\<close>: membership among the keys of a dict, among the elements
  of a list, substring test on a string; \<open>None\<close>, booleans and numbers are not containers and
  the test raises \<open>TypeError\<close>.
\<close>

fun py_contains :: "jvalue \<Rightarrow> string \<Rightarrow> py_error + bool" where
  "py_contains (JObj kvs) key = Inr (key \<in> set (map fst kvs))"
| "py_contains (JArr xs) key = Inr (JStr key \<in> set xs)"
| "py_contains (JStr s) key = Inr (is_substring key s)"
| "py_contains v key = Inl TypeError"

text \<open>\<open>data.get(key)\<close>: only a dict has the method.\<close>

fun py_get :: "jvalue \<Rightarrow> string \<Rightarrow> py_error + jvalue" where
  "py_get (JObj kvs) key = Inr (dict_get kvs key)"
| "py_get v key = Inl AttributeError"

text \<open>
  \<^verbatim>\<open>
  r = self._robust_get(url, payload=payload, retries=retries, context=...)
  data = r.json()
  if not isinstance(data, list) and "link" in data:
      return data.get("link"), True
  return data, False
  \<close>
  \<open>_robust_get\<close> is called with its default \<open>require_auth=True\<close>. The query parameters
  and the logging context do not influence the control flow and are left out.
\<close>

definition get_resource_or_link ::
    "server \<Rightarrow> string \<Rightarrow> int \<Rightarrow> client \<Rightarrow> (py_error + jvalue \<times> bool) \<times> client" where
  "get_resource_or_link e url retries s =
     (case robust_get e url retries True s of
        (Inl x, s1) \<Rightarrow> (Inl x, s1)
      | (Inr r, s1) \<Rightarrow>
          (case json r of
             Inl x \<Rightarrow> (Inl x, s1)
           | Inr data \<Rightarrow>
               if is_list data then (Inr (data, False), s1)
               else
                 (case py_contains data ''link'' of
                    Inl x \<Rightarrow> (Inl x, s1)
                  | Inr has_link \<Rightarrow>
                      if has_link then
                        (case py_get data ''link'' of
                           Inl x \<Rightarrow> (Inl x, s1)
                         | Inr link \<Rightarrow> (Inr (link, True), s1))
                      else (Inr (data, False), s1))))"

section \<open>Chunk aggregator\<close>

text \<open>
  \<open>for x in v\<close>: the elements of a list, the one-character strings of a string, the keys of
  a dict; anything else is not iterable.
\<close>

fun py_iter :: "jvalue \<Rightarrow> py_error + jvalue list" where
  "py_iter (JArr xs) = Inr xs"
| "py_iter (JStr s) = Inr (map (\<lambda>c. JStr [c]) s)"
| "py_iter (JObj kvs) = Inr (map (\<lambda>kv. JStr (fst kv)) kvs)"
| "py_iter v = Inl TypeError"

text \<open>
  \<open>a + b\<close>: concatenation of two strings or of two lists, the sum of two numbers (a boolean
  counts as the integer 0 or 1); any other pair of operands raises \<open>TypeError\<close>.
\<close>

fun as_number :: "jvalue \<Rightarrow> (int + real) option" where
  "as_number (JBool b) = Some (Inl (if b then 1 else 0))"
| "as_number (JInt i) = Some (Inl i)"
| "as_number (JFloat x) = Some (Inr x)"
| "as_number v = None"

fun add_numbers :: "int + real \<Rightarrow> int + real \<Rightarrow> jvalue" where
  "add_numbers (Inl i) (Inl j) = JInt (i + j)"
| "add_numbers (Inl i) (Inr y) = JFloat (real_of_int i + y)"
| "add_numbers (Inr x) (Inl j) = JFloat (x + real_of_int j)"
| "add_numbers (Inr x) (Inr y) = JFloat (x + y)"

fun py_add :: "jvalue \<Rightarrow> jvalue \<Rightarrow> py_error + jvalue" where
  "py_add (JStr a) (JStr b) = Inr (JStr (a @ b))"
| "py_add (JArr a) (JArr b) = Inr (JArr (a @ b))"
| "py_add a b =
     (case (as_number a, as_number b) of
        (Some x, Some y) \<Rightarrow> Inr (add_numbers x y)
      | _ \<Rightarrow> Inl TypeError)"

text \<open>\<open>[base_url + x for x in names]\<close>: the first addition that raises ends the comprehension.\<close>

fun build_urls :: "jvalue \<Rightarrow> jvalue list \<Rightarrow> py_error + jvalue list" where
  "build_urls base_url [] = Inr []"
| "build_urls base_url (x # xs) =
     (case py_add base_url x of
        Inl err \<Rightarrow> Inl err
      | Inr url \<Rightarrow>
          (case build_urls base_url xs of
             Inl err \<Rightarrow> Inl err
           | Inr urls \<Rightarrow> Inr (url # urls)))"

text \<open>
  \<open>self.session.get(url).json()\<close>. A URL that is not a string is refused by the
  \<open>requests\<close> library with an exception of its own before anything is sent. An exception
  of \<open>session.get\<close> or of the decoder is not caught here.
\<close>

definition get_json :: "server \<Rightarrow> jvalue \<Rightarrow> client \<Rightarrow> (py_error + jvalue) \<times> client" where
  "get_json e url s =
     (case url of
        JStr u \<Rightarrow>
          (case session_get e u s of
             (Raise x, s1) \<Rightarrow> (Inl x, s1)
           | (Reply r, s1) \<Rightarrow> (json r, s1))
      | _ \<Rightarrow> (Inl RequestException, s))"

text \<open>\<open>[self.session.get(url).json() for url in urls]\<close>, in the order of \<open>urls\<close>.\<close>

fun fetch_all :: "server \<Rightarrow> jvalue list \<Rightarrow> client \<Rightarrow> (py_error + jvalue list) \<times> client" where
  "fetch_all e [] s = (Inr [], s)"
| "fetch_all e (url # urls) s =
     (case get_json e url s of
        (Inl x, s1) \<Rightarrow> (Inl x, s1)
      | (Inr v, s1) \<Rightarrow>
          (case fetch_all e urls s1 of
             (Inl x, s2) \<Rightarrow> (Inl x, s2)
           | (Inr vs, s2) \<Rightarrow> (Inr (v # vs), s2)))"

text \<open>\<open>[item for sublist in list_of_chunks for item in sublist]\<close>.\<close>

fun flatten :: "jvalue list \<Rightarrow> py_error + jvalue list" where
  "flatten [] = Inr []"
| "flatten (sublist # rest) =
     (case py_iter sublist of
        Inl x \<Rightarrow> Inl x
      | Inr items \<Rightarrow>
          (case flatten rest of
             Inl x \<Rightarrow> Inl x
           | Inr output \<Rightarrow> Inr (items @ output)))"

text \<open>
  \<^verbatim>\<open>
  if not isinstance(chunks, dict):
      return []
  base_url = chunks.get("base_download_url")
  urls = [base_url + x for x in chunks.get("chunk_file_names")]
  list_of_chunks = [self.session.get(url).json() for url in urls]
  output = [item for sublist in list_of_chunks for item in sublist]
  return output
  \<close>
\<close>

definition get_chunks :: "server \<Rightarrow> jvalue \<Rightarrow> client \<Rightarrow> (py_error + jvalue list) \<times> client" where
  "get_chunks e chunks s =
     (case chunks of
        JObj kvs \<Rightarrow>
          (let base_url = dict_get kvs ''base_download_url'' in
           case py_iter (dict_get kvs ''chunk_file_names'') of
             Inl x \<Rightarrow> (Inl x, s)
           | Inr names \<Rightarrow>
               (case build_urls base_url names of
                  Inl x \<Rightarrow> (Inl x, s)
                | Inr urls \<Rightarrow>
                    (case fetch_all e urls s of
                       (Inl x, s1) \<Rightarrow> (Inl x, s1)
                     | (Inr list_of_chunks, s1) \<Rightarrow>
                         (case flatten list_of_chunks of
                            Inl x \<Rightarrow> (Inl x, s1)
                          | Inr output \<Rightarrow> (Inr output, s1)))))
      | _ \<Rightarrow> (Inr [], s))"

section \<open>Credential encoder\<close>



subsection \<open>\<open>str.lower\<close> and \<open>str.encode("utf-8")\<close>\<close>

text \<open>
  \<open>str.lower()\<close> on the code points below 256: the upper-case letters are \<open>A\<close> to \<open>Z\<close> and
  U+00C0 to U+00DE without the multiplication sign U+00D7; each has its lower-case letter 32
  code points higher. Every other character is left as it is.
\<close>

definition lower_char :: "char \<Rightarrow> char" where
  "lower_char c =
     (let n = (of_char c :: nat)
      in if (65 \<le> n \<and> n \<le> 90) \<or> (192 \<le> n \<and> n \<le> 222 \<and> n \<noteq> 215)
         then char_of (n + 32) else c)"

definition py_lower :: "string \<Rightarrow> string" where
  "py_lower s = map lower_char s"



subsection \<open>\<open>hashlib.sha256\<close> (FIPS 180-4)\<close>


























subsection \<open>\<open>base64.b64encode\<close> (RFC 4648)\<close>




subsection \<open>The encoder\<close>


section \<open>CSV decoder\<close>

subsection \<open>\<open>csv.reader\<close> over \<open>StringIO(text)\<close>\<close>

text \<open>
  The reader of Python's \<open>csv\<close> module with the dialect the client uses: delimiter \<open>,\<close>,
  quote character \<open>"\<close> doubled inside a quoted field, no escape character, not strict.
  It is a state machine over the characters of each line, with an end-of-line mark after
  the last character of a line.
\<close>

datatype parser_state =
    START_RECORD
  | START_FIELD
  | IN_FIELD
  | IN_QUOTED_FIELD
  | QUOTE_IN_QUOTED_FIELD
  | EAT_CRNL

record reader =
  state :: parser_state
  row_fields :: "string list"
  field_buf :: string

definition LF :: char where
  "LF = CHR 0x0A"

definition CR :: char where
  "CR = CHR 0x0D"

definition field_limit :: nat where
  "field_limit = 131072"

definition parse_reset :: reader where
  "parse_reset = \<lparr>state = START_RECORD, row_fields = [], field_buf = []\<rparr>"

definition parse_add_char :: "reader \<Rightarrow> char \<Rightarrow> py_error + reader" where
  "parse_add_char p c =
     (if length (field_buf p) \<ge> field_limit then Inl CsvError
      else Inr (p\<lparr>field_buf := field_buf p @ [c]\<rparr>))"

definition parse_save_field :: "reader \<Rightarrow> reader" where
  "parse_save_field p = p\<lparr>row_fields := row_fields p @ [field_buf p], field_buf := []\<rparr>"

text \<open>A line end inside the line (\<open>Some LF\<close>, \<open>Some CR\<close>) or the mark after it (\<open>None\<close>).\<close>

definition is_eol :: "char option \<Rightarrow> bool" where
  "is_eol c = (c = None \<or> c = Some LF \<or> c = Some CR)"

definition after_eol :: "char option \<Rightarrow> parser_state" where
  "after_eol c = (if c = None then START_RECORD else EAT_CRNL)"

text \<open>The state \<open>START_FIELD\<close>, which \<open>START_RECORD\<close> falls through to on a normal character.\<close>

definition start_field :: "reader \<Rightarrow> char option \<Rightarrow> py_error + reader" where
  "start_field p c =
     (if is_eol c then Inr ((parse_save_field p)\<lparr>state := after_eol c\<rparr>)
      else if c = Some CHR ''\"'' then Inr (p\<lparr>state := IN_QUOTED_FIELD\<rparr>)
      else if c = Some CHR '','' then Inr (parse_save_field p)
      else map_sum id (\<lambda>q. q\<lparr>state := IN_FIELD\<rparr>) (parse_add_char p (the c)))"

definition parse_process_char :: "reader \<Rightarrow> char option \<Rightarrow> py_error + reader" where
  "parse_process_char p c =
     (case state p of
        START_RECORD \<Rightarrow>
          if c = None then Inr p
          else if c = Some LF \<or> c = Some CR then Inr (p\<lparr>state := EAT_CRNL\<rparr>)
          else start_field (p\<lparr>state := START_FIELD\<rparr>) c
      | START_FIELD \<Rightarrow> start_field p c
      | IN_FIELD \<Rightarrow>
          if is_eol c then Inr ((parse_save_field p)\<lparr>state := after_eol c\<rparr>)
          else if c = Some CHR '','' then Inr ((parse_save_field p)\<lparr>state := START_FIELD\<rparr>)
          else parse_add_char p (the c)
      | IN_QUOTED_FIELD \<Rightarrow>
          if c = None then Inr p
          else if c = Some CHR ''\"'' then Inr (p\<lparr>state := QUOTE_IN_QUOTED_FIELD\<rparr>)
          else parse_add_char p (the c)
      | QUOTE_IN_QUOTED_FIELD \<Rightarrow>
          if c = Some CHR ''\"''
          then map_sum id (\<lambda>q. q\<lparr>state := IN_QUOTED_FIELD\<rparr>) (parse_add_char p (the c))
          else if c = Some CHR '','' then Inr ((parse_save_field p)\<lparr>state := START_FIELD\<rparr>)
          else if is_eol c then Inr ((parse_save_field p)\<lparr>state := after_eol c\<rparr>)
          else map_sum id (\<lambda>q. q\<lparr>state := IN_FIELD\<rparr>) (parse_add_char p (the c))
      | EAT_CRNL \<Rightarrow>
          if c = Some LF \<or> c = Some CR then Inr p
          else if c = None then Inr (p\<lparr>state := START_RECORD\<rparr>)
          else Inl CsvError)"

fun process_chars :: "reader \<Rightarrow> string \<Rightarrow> py_error + reader" where
  "process_chars p [] = Inr p"
| "process_chars p (c # cs) =
     (case parse_process_char p (Some c) of
        Inl x \<Rightarrow> Inl x
      | Inr q \<Rightarrow> process_chars q cs)"

text \<open>One line of the input: its characters, then the end-of-line mark.\<close>

definition process_line :: "reader \<Rightarrow> string \<Rightarrow> py_error + reader" where
  "process_line p line =
     (case process_chars p line of
        Inl x \<Rightarrow> Inl x
      | Inr q \<Rightarrow> parse_process_char q None)"

text \<open>
  Iterating over \<open>StringIO(text)\<close>: the lines of the text, each with the line feed that ends
  it; \<open>cur\<close> holds the characters of the line being read.
\<close>

fun readlines :: "string \<Rightarrow> string \<Rightarrow> string list" where
  "readlines cur [] = (if cur = [] then [] else [cur])"
| "readlines cur (c # cs) =
     (if c = LF then (cur @ [c]) # readlines [] cs else readlines (cur @ [c]) cs)"

text \<open>
  The rows the reader yields from the remaining lines, and the exception that ends the
  iteration if there is one. A record is complete when the machine is back in
  \<open>START_RECORD\<close> after a line; at the end of the input an open quoted field is closed.
\<close>

fun iter_rows :: "reader \<Rightarrow> string list \<Rightarrow> string list list \<times> py_error option" where
  "iter_rows p [] =
     (if field_buf p \<noteq> [] \<or> state p = IN_QUOTED_FIELD
      then ([row_fields (parse_save_field p)], None)
      else ([], None))"
| "iter_rows p (line # rest) =
     (case process_line p line of
        Inl x \<Rightarrow> ([], Some x)
      | Inr q \<Rightarrow>
          if state q \<noteq> START_RECORD then iter_rows q rest
          else (case iter_rows parse_reset rest of (rows, err) \<Rightarrow> (row_fields q # rows, err)))"

definition csv_reader :: "string \<Rightarrow> string list list \<times> py_error option" where
  "csv_reader text = iter_rows parse_reset (readlines [] text)"

subsection \<open>\<open>_parse_csv_response\<close>\<close>

text \<open>
  \<open>dict(pairs)\<close>: a later pair replaces the value of an equal key and keeps the key's place;
  a new key goes to the end.
\<close>

definition py_dict :: "('k \<times> 'v) list \<Rightarrow> ('k \<times> 'v) list" where
  "py_dict pairs = foldl (\<lambda>d kv. AList.update (fst kv) (snd kv) d) [] pairs"

definition warning :: string where
  "warning = ''Warning: Row length does not match headers length''"

text \<open>
  The loop \<open>for row in reader\<close> over the rows after the header: the mappings appended to
  \<open>csv_data\<close> and the lines printed.
\<close>

fun csv_rows :: "string list \<Rightarrow> string list list \<Rightarrow> (string \<times> string) list list \<times> string list" where
  "csv_rows hdrs [] = ([], [])"
| "csv_rows hdrs (row # rows) =
     (case csv_rows hdrs rows of
        (csv_data, printed) \<Rightarrow>
          if length row = length hdrs then (py_dict (zip hdrs row) # csv_data, printed)
          else (csv_data, warning # printed))"

text \<open>
  \<^verbatim>\<open>
  csv_data = []
  reader = csv.reader(StringIO(text), delimiter=",")
  headers = [header.lower() for header in next(reader)]
  for row in reader:
      if len(row) == len(headers):
          csv_data.append(dict(zip(headers, row)))
      else:
          print("Warning: Row length does not match headers length")
  return csv_data
  \<close>
  The result is the returned list or the exception raised, with the lines printed.
  \<open>next(reader)\<close> on a reader without rows raises \<open>StopIteration\<close>.
\<close>

definition parse_csv_response ::
    "string \<Rightarrow> (py_error + (string \<times> string) list list) \<times> string list" where
  "parse_csv_response text =
     (case csv_reader text of
        ([], None) \<Rightarrow> (Inl StopIteration, [])
      | ([], Some x) \<Rightarrow> (Inl x, [])
      | (first # rows, err) \<Rightarrow>
          (let hdrs = map py_lower first
           in case csv_rows hdrs rows of
                (csv_data, printed) \<Rightarrow>
                  (case err of
                     None \<Rightarrow> (Inr csv_data, printed)
                   | Some x \<Rightarrow> (Inl x, printed))))"

section \<open>Example runs\<close>

text \<open>Responses, servers and a client state for the concrete runs evaluated below.\<close>

definition status_only :: "int \<Rightarrow> response" where
  "status_only code =
     \<lparr>status_code = code, headers = (\<lambda>name. None), json = Inl JSONDecodeError, body_text = []\<rparr>"

definition json_response :: "jvalue \<Rightarrow> response" where
  "json_response v =
     \<lparr>status_code = 200, headers = (\<lambda>name. None), json = Inr v, body_text = []\<rparr>"

definition noon :: clock where
  "noon = \<lparr>now = 1000, uniform = 1 / 4, fromtimestamp_ok = (\<lambda>t. 0 \<le> t \<and> t < 2147483648)\<rparr>"

text \<open>
  A server that answers the GET requests from a script, whatever the URL, and accepts
  every login.
\<close>

definition scripted :: "reply list \<Rightarrow> server" where
  "scripted gets =
     \<lparr>get_reply = (\<lambda>k url. if k < length gets then gets ! k else Raise ConnectionError),
      post_reply = (\<lambda>k. Reply (json_response (JObj [(''authcode'', JStr ''ok'')]))),
      clock_at = (\<lambda>k. noon)\<rparr>"

text \<open>A server that answers a GET request by the JSON file stored under the URL.\<close>

definition file_store :: "(string \<times> jvalue) list \<Rightarrow> server" where
  "file_store files =
     \<lparr>get_reply = (\<lambda>k url. case map_of files url of
                                None \<Rightarrow> Reply (status_only 404)
                              | Some v \<Rightarrow> Reply (json_response v)),
      post_reply = (\<lambda>k. Reply (status_only 403)),
      clock_at = (\<lambda>k. noon)\<rparr>"

definition logged_in :: client where
  "logged_in = \<lparr>authenticated = True, n_get = 0, n_post = 0, slept = []\<rparr>"

section \<open>Properties of the backoff calculator\<close>



lemma calculate_backoff_None:
  "calculate_backoff c attempt None = Inr (min (2 powi attempt + uniform c) 60)"
  by (simp add: calculate_backoff_def header_truthy_def)


lemmas int_simps = py_int_def strip_def is_space_def is_digit_def decimal_def


text \<open>
  A header that is present but empty is false in \<open>if ratelimit_reset:\<close> and takes the
  exponential path; a header that \<open>int\<close> cannot read raises \<open>ValueError\<close>. The wait computed
  from a reset hint has no upper bound: a reset 100 seconds ahead gives 100.5 seconds.
\<close>

lemma calculate_backoff_other_headers:
  "calculate_backoff c attempt (Some []) = calculate_backoff c attempt None"
  "s \<noteq> [] \<Longrightarrow> py_int s = None \<Longrightarrow> calculate_backoff c attempt (Some s) = Inl ValueError"
  by (simp_all add: calculate_backoff_def header_truthy_def)

lemma calculate_backoff_reset_not_capped:
  "calculate_backoff noon 0 (Some ''1100'') = Inr (201 / 2)"
  by (simp add: calculate_backoff_def header_truthy_def noon_def int_simps)

section \<open>Properties of the resilient requester\<close>

lemma robust_get_loop_unfold:
  "attempt < retries \<Longrightarrow>
     robust_get_loop e url retries attempt flag s =
       (case robust_get_try e url attempt flag s of
          (Done r, flag', s1) \<Rightarrow> (Inr r, s1)
        | (Continue, flag', s1) \<Rightarrow> robust_get_loop e url retries (attempt + 1) flag' s1
        | (Raised x, flag', s1) \<Rightarrow>
            if x = Timeout \<or> x = ConnectionError then
              (case backoff e s1 attempt None of
                 Inl y \<Rightarrow> (Inl y, s1)
               | Inr wait_time \<Rightarrow>
                   robust_get_loop e url retries (attempt + 1) flag' (sleep wait_time s1))
            else (Inl x, s1))"
  by (subst robust_get_loop.simps) simp

lemma robust_get_loop_exhausted:
  "\<not> attempt < retries \<Longrightarrow>
     robust_get_loop e url retries attempt flag s = (Inl (RuntimeError ExceededRetries), s)"
  by (subst robust_get_loop.simps) simp

lemma login_loop_unfold:
  "attempt < retries \<Longrightarrow>
     login_loop e retries attempt s =
       (case login_try e attempt s of
          (Done u, s1) \<Rightarrow> (Inr u, s1)
        | (Continue, s1) \<Rightarrow> login_loop e retries (attempt + 1) s1
        | (Raised x, s1) \<Rightarrow>
            if x = Timeout \<or> x = ConnectionError then
              (case backoff e s1 attempt None of
                 Inl y \<Rightarrow> (Inl y, s1)
               | Inr wait_time \<Rightarrow> login_loop e retries (attempt + 1) (sleep wait_time s1))
            else (Inl x, s1))"
  by (subst login_loop.simps) simp

lemma login_loop_exhausted:
  "\<not> attempt < retries \<Longrightarrow>
     login_loop e retries attempt s = (Inl (RuntimeError LoginFailedAfterRetries), s)"
  by (subst login_loop.simps) simp

lemma backoff_None:
  "backoff e s attempt None =
     Inr (min (2 powi attempt + uniform (clock_at e (length (slept s)))) 60)"
  by (simp add: backoff_def calculate_backoff_None)


lemmas run_simps =
  robust_get_def robust_get_loop_unfold robust_get_loop_exhausted robust_get_try_def
  login_def login_loop_unfold login_loop_exhausted login_try_def
  session_get_def session_post_def sleep_def backoff_def calculate_backoff_def
  header_truthy_def dict_get_def
  scripted_def file_store_def json_response_def status_only_def logged_in_def noon_def



text \<open>
  The re-login is once per call, not once per client: after a call that failed on a
  repeated 401, the next call (here with two attempts) logs in again on its first 401.
  The attempt that was answered by 401 is used up: with a single attempt left the call
  ends with the error of exhausted attempts although the re-login succeeded.
\<close>

lemma robust_get_relogin_example_runs:
  "robust_get (scripted (map (\<lambda>c. Reply (status_only c)) [401, 401, 401, 200])) ''u'' 2 True
       (snd (robust_get (scripted (map (\<lambda>c. Reply (status_only c)) [401, 401, 401, 200]))
          ''u'' 2 True logged_in)) =
     (Inr (status_only 200),
      \<lparr>authenticated = True, n_get = 4, n_post = 2, slept = [1 / 2, 1 / 2]\<rparr>)"
  "robust_get (scripted [Reply (status_only 401), Reply (status_only 200)]) ''u'' 1 True logged_in =
     (Inl (RuntimeError ExceededRetries),
      \<lparr>authenticated = True, n_get = 1, n_post = 1, slept = [1 / 2]\<rparr>)"
  by (simp_all add: run_simps)

text \<open>
  Claim C6. When an attempt of \<open>_robust_get\<close> is answered by 403 the call fails at once with
  the \<open>RuntimeError\<close> for a forbidden resource; when it is answered by a status other than
  200, 401, 403 and 429 it fails at once with the \<open>RuntimeError\<close> for an unhandled status.
  In both cases the state of the client changes by the one request sent and nothing else:
  no further request, no login, no sleep.
\<close>

theorem robust_get_fatal_status:
  assumes "attempt < retries"
    and "get_reply e (n_get s) url = Reply r"
  shows "(status_code r = 403 \<longrightarrow>
            robust_get_loop e url retries attempt flag s =
              (Inl (RuntimeError Forbidden403), s\<lparr>n_get := Suc (n_get s)\<rparr>))
       \<and> (status_code r \<notin> {200, 401, 403, 429} \<longrightarrow>
            robust_get_loop e url retries attempt flag s =
              (Inl (RuntimeError (UnhandledNon200 (status_code r))), s\<lparr>n_get := Suc (n_get s)\<rparr>))"
  using assms by (simp add: robust_get_loop_unfold robust_get_try_def session_get_def)

theorem robust_get_fatal_status_witness:
  "robust_get_loop (scripted [Reply (status_only 403)]) ''u'' 3 0 False logged_in =
     (Inl (RuntimeError Forbidden403),
      \<lparr>authenticated = True, n_get = 1, n_post = 0, slept = []\<rparr>)
   \<and> robust_get_loop (scripted [Reply (status_only 500)]) ''u'' 3 0 False logged_in =
     (Inl (RuntimeError (UnhandledNon200 500)),
      \<lparr>authenticated = True, n_get = 1, n_post = 0, slept = []\<rparr>)"
  using robust_get_fatal_status[of 0 3 "scripted [Reply (status_only 403)]" logged_in "''u''"
          "status_only 403" False]
        robust_get_fatal_status[of 0 3 "scripted [Reply (status_only 500)]" logged_in "''u''"
          "status_only 500" False]
  by (simp add: scripted_def status_only_def logged_in_def)

text \<open>
  The other answers to an attempt: 200 returns the response; 429 sleeps for the backoff
  computed from the reset header and goes on with the next attempt; a timeout or a
  connection error sleeps for the exponential backoff and goes on with the next attempt;
  when no attempt is left the call fails with the error of exhausted attempts.
\<close>

lemma robust_get_success:
  assumes "attempt < retries"
    and "get_reply e (n_get s) url = Reply r"
    and "status_code r = 200"
  shows "robust_get_loop e url retries attempt flag s = (Inr r, s\<lparr>n_get := Suc (n_get s)\<rparr>)"
  using assms by (simp add: robust_get_loop_unfold robust_get_try_def session_get_def)

lemma robust_get_rate_limited:
  assumes "attempt < retries"
    and "get_reply e (n_get s) url = Reply r"
    and "status_code r = 429"
    and "backoff e (s\<lparr>n_get := Suc (n_get s)\<rparr>) attempt (headers r ''x-ratelimit-reset'') =
           Inr wait_time"
  shows "robust_get_loop e url retries attempt flag s =
           robust_get_loop e url retries (attempt + 1) flag
             (sleep wait_time (s\<lparr>n_get := Suc (n_get s)\<rparr>))"
  using assms by (simp add: robust_get_loop_unfold robust_get_try_def session_get_def)

lemma robust_get_network_error:
  assumes "attempt < retries"
    and "get_reply e (n_get s) url = Raise x"
    and "x = Timeout \<or> x = ConnectionError"
  shows "robust_get_loop e url retries attempt flag s =
           robust_get_loop e url retries (attempt + 1) flag
             (sleep (min (2 powi attempt + uniform (clock_at e (length (slept s)))) 60)
                (s\<lparr>n_get := Suc (n_get s)\<rparr>))"
  using assms
  by (auto simp: robust_get_loop_unfold robust_get_try_def session_get_def backoff_None)

lemma robust_get_forbidden_example_runs:
  "robust_get (scripted [Reply (status_only 403), Reply (status_only 200)]) ''u'' 3 True logged_in =
     (Inl (RuntimeError Forbidden403),
      \<lparr>authenticated = True, n_get = 1, n_post = 0, slept = []\<rparr>)"
  "robust_get (scripted [Reply (status_only 429), Raise Timeout, Reply (status_only 403)])
       ''u'' 3 True logged_in =
     (Inl (RuntimeError Forbidden403),
      \<lparr>authenticated = True, n_get = 3, n_post = 0, slept = [5 / 4, 9 / 4]\<rparr>)"
  by (simp_all add: run_simps)

section \<open>Properties of the resource resolver\<close>

text \<open>
  Claim C4, as amended. For a decoded body that is a list or a mapping,
  \<open>_get_resource_or_link\<close> returns the value of the field \<open>link\<close> with the flag \<open>True\<close> exactly
  when the body is a mapping with a key \<open>link\<close>, and the body itself with the flag \<open>False\<close>
  otherwise; a list is always returned as it is.
\<close>

theorem get_resource_or_link_classifies:
  assumes "robust_get e url retries True s = (Inr r, s1)"
    and "json r = Inr data"
  shows "(data = JArr xs \<longrightarrow>
            get_resource_or_link e url retries s = (Inr (JArr xs, False), s1))
       \<and> (data = JObj kvs \<longrightarrow>
            get_resource_or_link e url retries s =
              (Inr (if ''link'' \<in> fst ` set kvs then (dict_get kvs ''link'', True)
                    else (JObj kvs, False)), s1))"
  using assms by (simp add: get_resource_or_link_def)

text \<open>The two bodies of the specification: a mapping with a link, and a list of records.\<close>

theorem get_resource_or_link_classifies_witness:
  "get_resource_or_link (scripted [Reply (json_response (JObj [(''link'', JStr ''https://x'')]))])
       ''u'' 3 logged_in =
     (Inr (JStr ''https://x'', True),
      \<lparr>authenticated = True, n_get = 1, n_post = 0, slept = []\<rparr>)
   \<and> get_resource_or_link (scripted [Reply (json_response (JArr [JObj [(''a'', JInt 1)]]))])
       ''u'' 3 logged_in =
     (Inr (JArr [JObj [(''a'', JInt 1)]], False),
      \<lparr>authenticated = True, n_get = 1, n_post = 0, slept = []\<rparr>)"
proof -
  let ?link = "json_response (JObj [(''link'', JStr ''https://x'')])"
  let ?list = "json_response (JArr [JObj [(''a'', JInt 1)]])"
  let ?s1 = "\<lparr>authenticated = True, n_get = 1, n_post = 0, slept = []\<rparr>"
  have a: "robust_get (scripted [Reply ?link]) ''u'' 3 True logged_in = (Inr ?link, ?s1)"
    by (simp add: run_simps)
  have b: "robust_get (scripted [Reply ?list]) ''u'' 3 True logged_in = (Inr ?list, ?s1)"
    by (simp add: run_simps)
  have ja: "json ?link = Inr (JObj [(''link'', JStr ''https://x'')])"
    by (simp add: json_response_def)
  have jb: "json ?list = Inr (JArr [JObj [(''a'', JInt 1)]])"
    by (simp add: json_response_def)
  from get_resource_or_link_classifies[OF a ja, of "[]" "[(''link'', JStr ''https://x'')]"]
       get_resource_or_link_classifies[OF b jb, of "[JObj [(''a'', JInt 1)]]" "[]"]
  show ?thesis
    by (simp add: dict_get_def)
qed

text \<open>
  The claim as it is written covers every decoded body. A body that is \<open>null\<close> is not a list
  and has no field \<open>link\<close>, yet it is not returned inline: the test \<open>"link" in data\<close> raises
  \<open>TypeError\<close>.
\<close>

theorem get_resource_or_link_null_counterexample:
  "get_resource_or_link (scripted [Reply (json_response JNull)]) ''u'' 3 logged_in =
     (Inl TypeError, \<lparr>authenticated = True, n_get = 1, n_post = 0, slept = []\<rparr>)"
  by (simp add: get_resource_or_link_def run_simps)

section \<open>Properties of the chunk aggregator\<close>

lemma build_urls_strings:
  "build_urls (JStr base) (map JStr names) = Inr (map (\<lambda>n. JStr (base @ n)) names)"
  by (induction names) simp_all

lemma flatten_lists: "flatten (map (JArr \<circ> f) xs) = Inr (concat (map f xs))"
  by (induction xs) simp_all

text \<open>
  Fetching a list of URLs when the \<open>i\<close>-th request, counted from the requests already
  sent, is answered by a response whose body decodes to \<open>v i\<close>.
\<close>

lemma fetch_all_replies:
  assumes "\<forall>i<length urls. \<exists>r. get_reply e (n_get s + i) (urls ! i) = Reply r \<and> json r = Inr (v i)"
  shows "fetch_all e (map JStr urls) s =
           (Inr (map v [0..<length urls]), s\<lparr>n_get := n_get s + length urls\<rparr>)"
  using assms
proof (induction urls arbitrary: s v)
  case Nil
  then show ?case by simp
next
  case (Cons u urls)
  from Cons.prems[rule_format, of 0]
  obtain r where r: "get_reply e (n_get s) u = Reply r" "json r = Inr (v 0)"
    by auto
  let ?s1 = "s\<lparr>n_get := Suc (n_get s)\<rparr>"
  have step: "get_json e (JStr u) s = (Inr (v 0), ?s1)"
    using r by (simp add: get_json_def session_get_def)
  have "\<forall>i<length urls. \<exists>r. get_reply e (n_get ?s1 + i) (urls ! i) = Reply r
          \<and> json r = Inr ((v \<circ> Suc) i)"
  proof (intro allI impI)
    fix i
    assume "i < length urls"
    then have "Suc i < length (u # urls)" by simp
    from Cons.prems[rule_format, OF this]
    show "\<exists>r. get_reply e (n_get ?s1 + i) (urls ! i) = Reply r \<and> json r = Inr ((v \<circ> Suc) i)"
      by simp
  qed
  from Cons.IH[OF this]
  have rest: "fetch_all e (map JStr urls) ?s1 =
      (Inr (map (v \<circ> Suc) [0..<length urls]), ?s1\<lparr>n_get := n_get ?s1 + length urls\<rparr>)" .
  have idx: "map v [0..<Suc (length urls)] = v 0 # map (v \<circ> Suc) [0..<length urls]"
    by (simp add: upt_conv_Cons map_Suc_upt[symmetric] del: upt_Suc)
  show ?case
    using step rest by (simp add: idx del: upt_Suc)
qed

text \<open>
  Claim C2. For a manifest with the base URL \<open>base\<close> and the file names \<open>names\<close>, when the
  request for the \<open>i\<close>-th file is answered by a response that decodes to the list
  \<open>contents i\<close>, \<open>_get_chunks\<close> returns the lists \<open>contents 0\<close>, \<open>contents 1\<close>, ... joined in the
  order of the manifest, each in its own order, after one request per file name.
\<close>

theorem get_chunks_manifest_order:
  assumes "map_of kvs ''base_download_url'' = Some (JStr base)"
    and "map_of kvs ''chunk_file_names'' = Some (JArr (map JStr names))"
    and "\<forall>i<length names. \<exists>r. get_reply e (n_get s + i) (base @ names ! i) = Reply r
            \<and> json r = Inr (JArr (contents i))"
  shows "get_chunks e (JObj kvs) s =
           (Inr (concat (map contents [0..<length names])),
            s\<lparr>n_get := n_get s + length names\<rparr>)"
proof -
  let ?urls = "map (\<lambda>n. base @ n) names"
  have "\<forall>i<length ?urls. \<exists>r. get_reply e (n_get s + i) (?urls ! i) = Reply r
          \<and> json r = Inr ((JArr \<circ> contents) i)"
    using assms(3) by simp
  from fetch_all_replies[OF this]
  have fetched: "fetch_all e (map JStr ?urls) s =
      (Inr (map JArr (map contents [0..<length names])), s\<lparr>n_get := n_get s + length names\<rparr>)"
    by simp
  have urls: "build_urls (JStr base) (map JStr names) = Inr (map JStr ?urls)"
    by (simp add: build_urls_strings comp_def)
  show ?thesis
    using assms(1,2) urls fetched
    by (simp add: get_chunks_def dict_get_def flatten_lists)
qed

text \<open>The manifest of the specification: \<open>a.json\<close> holds 1 and 2, \<open>b.json\<close> holds 3.\<close>

theorem get_chunks_manifest_order_witness:
  "get_chunks
       (file_store [(''http://x/a.json'', JArr [JInt 1, JInt 2]), (''http://x/b.json'', JArr [JInt 3])])
       (JObj [(''base_download_url'', JStr ''http://x/''),
              (''chunk_file_names'', JArr [JStr ''a.json'', JStr ''b.json''])])
       logged_in =
     (Inr [JInt 1, JInt 2, JInt 3],
      \<lparr>authenticated = True, n_get = 2, n_post = 0, slept = []\<rparr>)"
proof -
  let ?e = "file_store [(''http://x/a.json'', JArr [JInt 1, JInt 2]), (''http://x/b.json'', JArr [JInt 3])]"
  let ?kvs = "[(''base_download_url'', JStr ''http://x/''),
               (''chunk_file_names'', JArr [JStr ''a.json'', JStr ''b.json''])]"
  let ?contents = "\<lambda>i::nat. if i = 0 then [JInt 1, JInt 2] else [JInt 3]"
  have a: "map_of ?kvs ''base_download_url'' = Some (JStr ''http://x/'')"
    by simp
  have b: "map_of ?kvs ''chunk_file_names'' = Some (JArr (map JStr [''a.json'', ''b.json'']))"
    by simp
  have c: "\<forall>i<length [''a.json'', ''b.json''].
             \<exists>r. get_reply ?e (n_get logged_in + i) (''http://x/'' @ [''a.json'', ''b.json''] ! i) = Reply r
                \<and> json r = Inr (JArr (?contents i))"
    by (simp add: file_store_def json_response_def less_Suc_eq)
  from get_chunks_manifest_order[OF a b c]
  show ?thesis
    by (simp add: logged_in_def upt_conv_Cons)
qed

text \<open>
  Claim C3, as amended. An input that is not a mapping (\<open>None\<close>, a list, a string, a number,
  a boolean) gives the empty list, without raising and without a request. The shortcut
  does not apply to a mapping: without the list of file names, or without the base URL
  when a file name is listed, \<open>_get_chunks\<close> raises \<open>TypeError\<close>.
\<close>

theorem get_chunks_not_a_dict:
  "(\<not> is_dict chunks \<longrightarrow> get_chunks e chunks s = (Inr [], s))
   \<and> (map_of kvs ''chunk_file_names'' = None \<longrightarrow>
        get_chunks e (JObj kvs) s = (Inl TypeError, s))
   \<and> (map_of kvs ''base_download_url'' = None
        \<and> map_of kvs ''chunk_file_names'' = Some (JArr (JStr name # names)) \<longrightarrow>
        get_chunks e (JObj kvs) s = (Inl TypeError, s))"
proof (intro conjI impI)
  assume "\<not> is_dict chunks"
  then show "get_chunks e chunks s = (Inr [], s)"
    by (cases chunks) (simp_all add: get_chunks_def)
next
  assume "map_of kvs ''chunk_file_names'' = None"
  then show "get_chunks e (JObj kvs) s = (Inl TypeError, s)"
    by (simp add: get_chunks_def dict_get_def)
next
  assume "map_of kvs ''base_download_url'' = None
      \<and> map_of kvs ''chunk_file_names'' = Some (JArr (JStr name # names))"
  then show "get_chunks e (JObj kvs) s = (Inl TypeError, s)"
    by (simp add: get_chunks_def dict_get_def)
qed

theorem get_chunks_not_a_dict_witness:
  "get_chunks (file_store []) JNull logged_in = (Inr [], logged_in)
   \<and> get_chunks (file_store []) (JArr [JStr ''a.json'']) logged_in = (Inr [], logged_in)
   \<and> get_chunks (file_store []) (JObj [(''base_download_url'', JStr ''http://x/'')]) logged_in =
       (Inl TypeError, logged_in)
   \<and> get_chunks (file_store []) (JObj [(''chunk_file_names'', JArr [JStr ''a.json''])]) logged_in =
       (Inl TypeError, logged_in)"
  using get_chunks_not_a_dict[of JNull "file_store []" logged_in
          "[(''base_download_url'', JStr ''http://x/'')]" "''a.json''" "[]"]
        get_chunks_not_a_dict[of "JArr [JStr ''a.json'']" "file_store []" logged_in
          "[(''chunk_file_names'', JArr [JStr ''a.json''])]" "''a.json''" "[]"]
  by simp

text \<open>
  The claim as it is written also promises the empty list for a mapping that lacks the
  base URL or the list of file names. The empty mapping raises \<open>TypeError\<close> instead.
\<close>

theorem get_chunks_empty_dict_counterexample:
  "get_chunks (file_store []) (JObj []) logged_in = (Inl TypeError, logged_in)"
  by (simp add: get_chunks_def dict_get_def)

section \<open>Properties of the credential encoder\<close>











text \<open>
  The bytes hashed for the username \<open>User@Example.com\<close> and the password \<open>MyPassWord\<close>, and the
  one block they are padded to.
\<close>

lemmas char_simps = char_of_def bit_iff_odd_drop_bit drop_bit_eq_div











section \<open>Properties of the CSV decoder\<close>

lemma update_new_key: "k \<notin> fst ` set d \<Longrightarrow> AList.update k v d = d @ [(k, v)]"
  by (induction d) auto

lemma foldl_update_distinct:
  "distinct (map fst (d @ pairs)) \<Longrightarrow>
     foldl (\<lambda>d kv. AList.update (fst kv) (snd kv) d) d pairs = d @ pairs"
proof (induction pairs arbitrary: d)
  case Nil
  then show ?case by simp
next
  case (Cons kv pairs)
  from Cons.prems have new: "fst kv \<notin> fst ` set d"
    by auto
  from Cons.prems have "distinct (map fst ((d @ [kv]) @ pairs))"
    by simp
  from Cons.IH[OF this] new show ?case
    by (simp add: update_new_key)
qed

text \<open>With distinct keys \<open>dict\<close> keeps the pairs as they are.\<close>

lemma py_dict_distinct: "distinct (map fst pairs) \<Longrightarrow> py_dict pairs = pairs"
  using foldl_update_distinct[of "[]" pairs] by (simp add: py_dict_def)

lemma map_of_foldl_update:
  "map_of (foldl (\<lambda>d kv. AList.update (fst kv) (snd kv) d) d pairs) =
     map_of d ++ map_of (rev pairs)"
proof (induction pairs arbitrary: d)
  case Nil
  then show ?case by simp
next
  case (Cons kv pairs)
  have "map_of (AList.update (fst kv) (snd kv) d) ++ map_of (rev pairs) =
      map_of d ++ (map_of [kv] ++ map_of (rev pairs))"
    by (cases kv) (auto simp: update_conv' fun_eq_iff map_add_def split: option.splits)
  with Cons.IH[of "AList.update (fst kv) (snd kv) d"] show ?case
    by simp
qed

text \<open>In general the mapping gives a key the value of its last pair.\<close>

lemma map_of_py_dict: "map_of (py_dict pairs) = map_of (rev pairs)"
  using map_of_foldl_update[of "[]" pairs] by (simp add: py_dict_def)

text \<open>The loop keeps the rows as long as the header, in order, and prints once for each other row.\<close>

lemma csv_rows_filter:
  "csv_rows hdrs rows =
     (map (\<lambda>row. py_dict (zip hdrs row)) (filter (\<lambda>row. length row = length hdrs) rows),
      replicate (length (filter (\<lambda>row. length row \<noteq> length hdrs) rows)) warning)"
  by (induction rows) simp_all

text \<open>
  Claim C9. When the reader yields the header row \<open>first\<close> and then \<open>rows\<close>,
  \<open>_parse_csv_response\<close> returns, in order, one mapping for each row that has as many cells
  as the header, pairing the lower-cased header names with the cells of the row, which stay
  strings; each other row is skipped with one printed warning and the decoding goes on. The
  mapping of a row gives every name the cell of its last column of that name, and with
  distinct names it is the list of the pairs (name, cell) in the order of the columns.
\<close>

theorem parse_csv_response_rows:
  assumes "csv_reader text = (first # rows, None)"
  shows "parse_csv_response text =
           (Inr (map (\<lambda>row. py_dict (zip (map py_lower first) row))
                  (filter (\<lambda>row. length row = length first) rows)),
            replicate (length (filter (\<lambda>row. length row \<noteq> length first) rows)) warning)
       \<and> (\<forall>row. map_of (py_dict (zip (map py_lower first) row)) =
                 map_of (rev (zip (map py_lower first) row)))
       \<and> (\<forall>row. distinct (map py_lower first) \<and> length row = length first \<longrightarrow>
                 py_dict (zip (map py_lower first) row) = zip (map py_lower first) row)"
  using assms
  by (simp add: parse_csv_response_def csv_rows_filter map_of_py_dict py_dict_distinct)

lemmas csv_simps =
  csv_reader_def process_line_def parse_process_char_def start_field_def parse_add_char_def
  parse_save_field_def parse_reset_def is_eol_def after_eol_def LF_def CR_def field_limit_def

lemma example_csv_rows:
  "csv_reader ''id,name\<newline>1,Alice\<newline>2,Bob'' =
     ([[''id'', ''name''], [''1'', ''Alice''], [''2'', ''Bob'']], None)"
  "csv_reader ''ID,Name\<newline>1,Alice\<newline>3\<newline>2,Bob\<newline>'' =
     ([[''ID'', ''Name''], [''1'', ''Alice''], [''3''], [''2'', ''Bob'']], None)"
  by (simp_all add: csv_simps)

text \<open>
  The text of the specification, and the same with upper-case letters in the header and
  a row of one cell: that row is skipped with a warning and the row after it is decoded.
\<close>

theorem parse_csv_response_rows_witness:
  "parse_csv_response ''id,name\<newline>1,Alice\<newline>2,Bob'' =
     (Inr [[(''id'', ''1''), (''name'', ''Alice'')], [(''id'', ''2''), (''name'', ''Bob'')]], [])
   \<and> parse_csv_response ''ID,Name\<newline>1,Alice\<newline>3\<newline>2,Bob\<newline>'' =
     (Inr [[(''id'', ''1''), (''name'', ''Alice'')], [(''id'', ''2''), (''name'', ''Bob'')]],
      [''Warning: Row length does not match headers length''])"
proof -
  have l: "py_lower ''id'' = ''id''" "py_lower ''name'' = ''name''"
    "py_lower ''ID'' = ''id''" "py_lower ''Name'' = ''name''"
    by (simp_all add: py_lower_def lower_char_def char_simps)
  have d: "py_dict [(''id'', x), (''name'', y)] = [(''id'', x), (''name'', y)]" for x y :: string
    by (simp add: py_dict_distinct)
  note a = parse_csv_response_rows[OF example_csv_rows(1), THEN conjunct1]
  note b = parse_csv_response_rows[OF example_csv_rows(2), THEN conjunct1]
  show ?thesis
    unfolding a b by (simp add: l d warning_def)
qed

text \<open>
  Claim C10. On the empty text \<open>next(reader)\<close> has no row to give and \<open>_parse_csv_response\<close>
  raises \<open>StopIteration\<close>, printing nothing; on a text with a header row and nothing else it
  returns the empty list.
\<close>

theorem parse_csv_response_no_rows:
  "parse_csv_response [] = (Inl StopIteration, [])
   \<and> (csv_reader text = ([first], None) \<longrightarrow> parse_csv_response text = (Inr [], []))"
proof (intro conjI impI)
  have "csv_reader [] = ([], None)"
    by (simp add: csv_simps)
  then show "parse_csv_response [] = (Inl StopIteration, [])"
    by (simp add: parse_csv_response_def)
next
  assume "csv_reader text = ([first], None)"
  then show "parse_csv_response text = (Inr [], [])"
    by (simp add: parse_csv_response_def)
qed

theorem parse_csv_response_no_rows_witness:
  "csv_reader ''id,name'' = ([[''id'', ''name'']], None)
   \<and> parse_csv_response ''id,name'' = (Inr [], [])"
proof -
  have r: "csv_reader ''id,name'' = ([[''id'', ''name'']], None)"
    by (simp add: csv_simps)
  with parse_csv_response_no_rows[of "''id,name''" "[''id'', ''name'']"]
  show ?thesis
    by blast
qed

text \<open>
  Other inputs of the reader: a blank line is a row without cells, a quoted cell may hold
  a comma, a doubled quote and a line feed, and a carriage return inside an unquoted cell
  ends the iteration with an error after the rows before it.
\<close>

lemma csv_reader_example_runs:
  "csv_reader ''a,b\<newline>\<newline>c'' = ([[''a'', ''b''], [], [''c'']], None)"
  "csv_reader (''a,'' @ [CHR 0x22] @ ''b,'' @ [CHR 0x22, CHR 0x22] @ ''\<newline>c'' @ [CHR 0x22] @ '',d'') =
     ([[''a'', ''b,'' @ [CHR 0x22] @ ''\<newline>c'', ''d'']], None)"
  "csv_reader (''a,b\<newline>c'' @ [CR] @ ''d'') = ([[''a'', ''b'']], Some CsvError)"
  by (simp_all add: csv_simps)

end
